theory Spec2Isabelle
  imports Complex_Main "HOL-Library.Char_ord" "HOL-Library.List_Lexorder" "HOL-Library.AList"
begin

section \<open>Python values, namespaces and objects\<close>

text \<open>
  The exceptions that \<^verbatim>\<open>stingray/base.py\<close> raises itself or lets through from the
  interpreter and from numpy and astropy.
\<close>

datatype error =
    AttributeError
  | RuntimeError
  | TypeError
  | KeyError
  | IndexError
  | ValueError
  | UnboundLocalError
  | FileNotFoundError
  | UnpicklingError

text \<open>
  A numpy array is its shape together with its elements in row-major order. The element
  type (dtype) is float, complex or string; floating-point numbers are idealised as exact
  reals. \<open>ObjectArray\<close> is the zero-dimensional array that \<^verbatim>\<open>np.asarray\<close> wraps around
  any other object.
\<close>

datatype ndarray =
    FloatArray "nat list" "real list"
  | ComplexArray "nat list" "complex list"
  | StrArray "nat list" "string list"
  | ObjectArray

fun shape :: "ndarray \<Rightarrow> nat list" where
  "shape (FloatArray s xs) = s"
| "shape (ComplexArray s zs) = s"
| "shape (StrArray s ss) = s"
| "shape ObjectArray = []"

text \<open>
  The values an attribute can hold, as far as the base class can tell them apart:
  \<^verbatim>\<open>None\<close>, a number, a string, an array, a function or bound method, and an instance of
  some other class (neither callable nor iterable) given by the names of its attributes.
\<close>

datatype pyval =
    PyNone
  | PyFloat real
  | PyStr string
  | PyArray ndarray
  | PyCallable
  | PyInstance "string list"

text \<open>\<^verbatim>\<open>isinstance(v, Iterable)\<close>: strings and arrays define \<^verbatim>\<open>__iter__\<close>.\<close>

fun is_iterable :: "pyval \<Rightarrow> bool" where
  "is_iterable (PyStr s) = True"
| "is_iterable (PyArray a) = True"
| "is_iterable v = False"

text \<open>\<^verbatim>\<open>np.shape(v)\<close>: the shape of an array, and the empty tuple for everything scalar.\<close>

fun np_shape :: "pyval \<Rightarrow> nat list" where
  "np_shape (PyArray a) = shape a"
| "np_shape v = []"

fun callable :: "pyval \<Rightarrow> bool" where
  "callable PyCallable = True"
| "callable v = False"

text \<open>\<^verbatim>\<open>hasattr(v, name)\<close> on an attribute value; only instances carry attributes here.\<close>

fun value_hasattr :: "pyval \<Rightarrow> string \<Rightarrow> bool" where
  "value_hasattr (PyInstance names) name = (name \<in> set names)"
| "value_hasattr v name = False"

text \<open>
  A namespace is a Python \<^verbatim>\<open>dict\<close> from names to values, in insertion order. An object
  has the namespace of its instance and the namespace of its class (with everything the
  class inherits); attribute lookup tries the instance first.
\<close>

type_synonym namespace = "(string \<times> pyval) list"

record pyobject =
  cls_dict :: namespace
  inst_dict :: namespace

definition lookup_attr :: "pyobject \<Rightarrow> string \<Rightarrow> pyval option" where
  "lookup_attr obj name =
     (case map_of (inst_dict obj) name of
        Some v \<Rightarrow> Some v
      | None \<Rightarrow> map_of (cls_dict obj) name)"

definition getattr :: "pyobject \<Rightarrow> string \<Rightarrow> error + pyval" where
  "getattr obj name =
     (case lookup_attr obj name of None \<Rightarrow> Inl AttributeError | Some v \<Rightarrow> Inr v)"

definition hasattr :: "pyobject \<Rightarrow> string \<Rightarrow> bool" where
  "hasattr obj name = (lookup_attr obj name \<noteq> None)"

text \<open>\<^verbatim>\<open>dir(obj)\<close>: the names of the instance and of its class, without repetition, sorted.\<close>

definition dir :: "pyobject \<Rightarrow> string list" where
  "dir obj = sort (remdups (map fst (inst_dict obj) @ map fst (cls_dict obj)))"

text \<open>\<^verbatim>\<open>setattr(cls, name, v)\<close> and \<^verbatim>\<open>d[name] = v\<close>: replace in place, or append.\<close>

definition setattr :: "namespace \<Rightarrow> string \<Rightarrow> pyval \<Rightarrow> namespace" where
  "setattr ns name v = AList.update name v ns"

definition class_getattr :: "namespace \<Rightarrow> string \<Rightarrow> error + pyval" where
  "class_getattr cls name =
     (case map_of cls name of None \<Rightarrow> Inl AttributeError | Some v \<Rightarrow> Inr v)"

section \<open>String methods\<close>

definition startswith :: "string \<Rightarrow> string \<Rightarrow> bool" where
  "startswith s pre = (take (length pre) s = pre)"

definition endswith :: "string \<Rightarrow> string \<Rightarrow> bool" where
  "endswith s suf = (length suf \<le> length s \<and> drop (length s - length suf) s = suf)"

text \<open>\<^verbatim>\<open>sub in s\<close> on strings.\<close>

fun str_contains :: "string \<Rightarrow> string \<Rightarrow> bool" where
  "str_contains sub [] = (sub = [])"
| "str_contains sub (c # cs) = (startswith (c # cs) sub \<or> str_contains sub cs)"

text \<open>\<^verbatim>\<open>s.replace(old, '')\<close>: every occurrence of \<open>old\<close>, scanning from the left.\<close>

function str_remove :: "string \<Rightarrow> string \<Rightarrow> string" where
  "str_remove old [] = []"
| "str_remove old (c # cs) =
     (if old \<noteq> [] \<and> startswith (c # cs) old
      then str_remove old (drop (length old) (c # cs))
      else c # str_remove old cs)"
  by pat_completeness auto
termination
  by (relation "measure (\<lambda>(old, s). length s)") (auto simp: neq_Nil_conv)

text \<open>\<^verbatim>\<open>s.lower()\<close> on ASCII: a capital letter gets bit 5 (value 32) set.\<close>

fun char_lower :: "char \<Rightarrow> char" where
  "char_lower (Char b0 b1 b2 b3 b4 b5 b6 b7) =
     (if CHR ''A'' \<le> Char b0 b1 b2 b3 b4 b5 b6 b7 \<and> Char b0 b1 b2 b3 b4 b5 b6 b7 \<le> CHR ''Z''
      then Char b0 b1 b2 b3 b4 True b6 b7
      else Char b0 b1 b2 b3 b4 b5 b6 b7)"

definition lower :: "string \<Rightarrow> string" where
  "lower s = map char_lower s"

section \<open>Construction and attribute classification\<close>

text \<open>
  \<^verbatim>\<open>StingrayObject.__init__\<close>: the instance under construction is handed in, and comes
  back unchanged unless the check raises.
\<close>

definition init :: "pyobject \<Rightarrow> error + pyobject" where
  "init self =
     (if \<not> hasattr self ''main_array_attr'' then Inl RuntimeError else Inr self)"

text \<open>
  \<^verbatim>\<open>getattr(self, getattr(self, "main_array_attr"))\<close>; a name that is not a string makes
  the outer \<^verbatim>\<open>getattr\<close> raise \<^verbatim>\<open>TypeError\<close>.
\<close>

definition main_attr_of :: "pyobject \<Rightarrow> error + pyval" where
  "main_attr_of self =
     (case getattr self ''main_array_attr'' of
        Inl e \<Rightarrow> Inl e
      | Inr (PyStr m) \<Rightarrow> getattr self m
      | Inr _ \<Rightarrow> Inl TypeError)"

text \<open>
  The condition of the comprehension in \<^verbatim>\<open>array_attrs\<close>. Every name of \<^verbatim>\<open>dir(self)\<close> has
  a value, so the \<open>None\<close> case is never reached from there.
\<close>

definition is_array_attr :: "pyobject \<Rightarrow> pyval \<Rightarrow> string \<Rightarrow> bool" where
  "is_array_attr self main_attr attr =
     (case lookup_attr self attr of
        None \<Rightarrow> False
      | Some v \<Rightarrow> is_iterable v \<and> np_shape v = np_shape main_attr)"

definition array_attrs :: "pyobject \<Rightarrow> error + string list" where
  "array_attrs self =
     (case main_attr_of self of
        Inl e \<Rightarrow> Inl e
      | Inr main_attr \<Rightarrow>
          if main_attr = PyNone then Inr []
          else Inr (filter (is_array_attr self main_attr) (dir self)))"

definition is_meta_attr :: "pyobject \<Rightarrow> string list \<Rightarrow> string \<Rightarrow> bool" where
  "is_meta_attr self arr attr =
     (attr \<notin> set arr \<and> \<not> startswith attr ''_'' \<and>
      (case lookup_attr self attr of
         None \<Rightarrow> False
       | Some attr_value \<Rightarrow>
           \<not> callable attr_value \<and> \<not> value_hasattr attr_value ''meta_attrs''))"

definition meta_attrs :: "pyobject \<Rightarrow> error + string list" where
  "meta_attrs self =
     (case array_attrs self of
        Inl e \<Rightarrow> Inl e
      | Inr arr \<Rightarrow> Inr (filter (is_meta_attr self arr) (dir self)))"

text \<open>The loop of \<^verbatim>\<open>get_meta_dict\<close>, with the dictionary built so far.\<close>

fun meta_dict_loop :: "pyobject \<Rightarrow> string list \<Rightarrow> namespace \<Rightarrow> error + namespace" where
  "meta_dict_loop self [] meta_dict = Inr meta_dict"
| "meta_dict_loop self (key # keys) meta_dict =
     (case getattr self key of
        Inl e \<Rightarrow> Inl e
      | Inr val \<Rightarrow>
          if val \<noteq> PyNone then meta_dict_loop self keys (setattr meta_dict key val)
          else meta_dict_loop self keys meta_dict)"

definition get_meta_dict :: "pyobject \<Rightarrow> error + namespace" where
  "get_meta_dict self =
     (case meta_attrs self of
        Inl e \<Rightarrow> Inl e
      | Inr keys \<Rightarrow> meta_dict_loop self keys [])"

section \<open>Tables, datasets and data frames\<close>

text \<open>\<^verbatim>\<open>np.asarray(v)\<close>; an array is returned as it is.\<close>

fun np_asarray :: "pyval \<Rightarrow> ndarray" where
  "np_asarray (PyArray a) = a"
| "np_asarray (PyFloat x) = FloatArray [] [x]"
| "np_asarray (PyStr s) = StrArray [] [s]"
| "np_asarray v = ObjectArray"

text \<open>
  An astropy \<^verbatim>\<open>Table\<close>: its columns in order, and its \<^verbatim>\<open>meta\<close> dictionary.
\<close>

record table =
  columns :: "(string \<times> ndarray) list"
  meta :: namespace

definition colnames :: "table \<Rightarrow> string list" where
  "colnames ts = map fst (columns ts)"

text \<open>\<^verbatim>\<open>len(ts)\<close>: the number of rows, which is 0 for a table without columns.\<close>

definition table_len :: "(string \<times> ndarray) list \<Rightarrow> nat" where
  "table_len cols =
     (case cols of
        [] \<Rightarrow> 0
      | (name, a) # rest \<Rightarrow> (case shape a of [] \<Rightarrow> 0 | n # s \<Rightarrow> n))"

text \<open>\<^verbatim>\<open>ts[name]\<close> for a column name.\<close>

definition getitem :: "(string \<times> ndarray) list \<Rightarrow> string \<Rightarrow> error + ndarray" where
  "getitem cols name = (case map_of cols name of None \<Rightarrow> Inl KeyError | Some a \<Rightarrow> Inr a)"

text \<open>
  \<^verbatim>\<open>Table(data)\<close> for a dictionary of arrays: astropy takes the length of every column
  (which a zero-dimensional array does not have) and refuses columns of different lengths.
\<close>

definition table_init :: "(string \<times> ndarray) list \<Rightarrow> error + table" where
  "table_init data =
     (if \<exists>a \<in> set (map snd data). shape a = [] then Inl TypeError
      else if \<exists>a \<in> set (map snd data). \<exists>b \<in> set (map snd data). hd (shape a) \<noteq> hd (shape b)
      then Inl ValueError
      else Inr \<lparr>columns = data, meta = []\<rparr>)"

text \<open>\<^verbatim>\<open>d.update(other)\<close>.\<close>

definition dict_update :: "('k \<times> 'v) list \<Rightarrow> ('k \<times> 'v) list \<Rightarrow> ('k \<times> 'v) list" where
  "dict_update d other = fold (\<lambda>(k, v) acc. AList.update k v acc) other d"

text \<open>
  The loop shared by the three exporters:
  \<^verbatim>\<open>for attr in array_attrs: data[attr] = np.asarray(getattr(self, attr))\<close>.
\<close>

fun export_data ::
  "pyobject \<Rightarrow> string list \<Rightarrow> (string \<times> ndarray) list \<Rightarrow> error + (string \<times> ndarray) list"
where
  "export_data self [] data = Inr data"
| "export_data self (attr # attrs) data =
     (case getattr self attr of
        Inl e \<Rightarrow> Inl e
      | Inr v \<Rightarrow> export_data self attrs (AList.update attr (np_asarray v) data))"

definition to_astropy_table :: "pyobject \<Rightarrow> error + table" where
  "to_astropy_table self =
     (case array_attrs self of
        Inl e \<Rightarrow> Inl e
      | Inr arr \<Rightarrow>
          (case export_data self arr [] of
             Inl e \<Rightarrow> Inl e
           | Inr data \<Rightarrow>
               (case table_init data of
                  Inl e \<Rightarrow> Inl e
                | Inr ts \<Rightarrow>
                    (case get_meta_dict self of
                       Inl e \<Rightarrow> Inl e
                     | Inr md \<Rightarrow> Inr (ts\<lparr>meta := dict_update (meta ts) md\<rparr>)))))"

text \<open>
  \<^verbatim>\<open>attr == cls.main_array_attr\<close> used as a condition. Against an array numpy compares
  element by element, and the truth value of the result is defined only when it has one
  element.
\<close>

fun name_equals :: "string \<Rightarrow> pyval \<Rightarrow> error + bool" where
  "name_equals attr (PyStr s) = Inr (attr = s)"
| "name_equals attr (PyArray (StrArray sh ss)) =
     (case ss of [s] \<Rightarrow> Inr (attr = s) | _ \<Rightarrow> Inl ValueError)"
| "name_equals attr (PyArray (FloatArray sh xs)) =
     (case xs of [x] \<Rightarrow> Inr False | _ \<Rightarrow> Inl ValueError)"
| "name_equals attr (PyArray (ComplexArray sh zs)) =
     (case zs of [z] \<Rightarrow> Inr False | _ \<Rightarrow> Inl ValueError)"
| "name_equals attr v = Inr False"

text \<open>
  The column loop shared by the three importers. \<^verbatim>\<open>cls.main_array_attr\<close> is read from
  the class as it is in each round.
\<close>

fun import_columns ::
  "(string \<times> ndarray) list \<Rightarrow> namespace \<Rightarrow> string list \<Rightarrow> error + namespace"
where
  "import_columns cols cls [] = Inr cls"
| "import_columns cols cls (attr # attrs) =
     (case class_getattr cls ''main_array_attr'' of
        Inl e \<Rightarrow> Inl e
      | Inr m \<Rightarrow>
          (case name_equals attr m of
             Inl e \<Rightarrow> Inl e
           | Inr True \<Rightarrow> import_columns cols cls attrs
           | Inr False \<Rightarrow>
               (case getitem cols attr of
                  Inl e \<Rightarrow> Inl e
                | Inr a \<Rightarrow> import_columns cols (setattr cls attr (PyArray a)) attrs)))"

text \<open>
  \<^verbatim>\<open>mainarray = np.array(ts[cls.main_array_attr]); setattr(cls, cls.main_array_attr,
  mainarray)\<close>. Only a string names a column and an attribute.
\<close>

definition import_main :: "(string \<times> ndarray) list \<Rightarrow> namespace \<Rightarrow> error + namespace" where
  "import_main cols cls =
     (case class_getattr cls ''main_array_attr'' of
        Inl e \<Rightarrow> Inl e
      | Inr (PyStr m) \<Rightarrow>
          (case getitem cols m of
             Inl e \<Rightarrow> Inl e
           | Inr mainarray \<Rightarrow> Inr (setattr cls m (PyArray mainarray)))
      | Inr _ \<Rightarrow> Inl TypeError)"

text \<open>\<^verbatim>\<open>for key, val in ts.meta.items(): setattr(cls, key, val)\<close>.\<close>

fun import_meta :: "namespace \<Rightarrow> namespace \<Rightarrow> namespace" where
  "import_meta cls [] = cls"
| "import_meta cls ((key, val) # items) = import_meta (setattr cls key val) items"

text \<open>
  \<^verbatim>\<open>from_astropy_table\<close> is a class method: it assigns to the class and returns the class,
  so the class namespace goes in and comes out.
\<close>

definition from_astropy_table :: "namespace \<Rightarrow> table \<Rightarrow> error + namespace" where
  "from_astropy_table cls ts =
     (if table_len (columns ts) = 0 then Inr cls
      else
        (case import_main (columns ts) cls of
           Inl e \<Rightarrow> Inl e
         | Inr cls1 \<Rightarrow>
             (case import_columns (columns ts) cls1 (colnames ts) of
                Inl e \<Rightarrow> Inl e
              | Inr cls2 \<Rightarrow> Inr (import_meta cls2 (meta ts)))))"











section \<open>Reading and writing files\<close>

text \<open>
  What \<^verbatim>\<open>read\<close> and \<^verbatim>\<open>write\<close> need from outside the repository, over any kind \<open>'fs\<close> of
  file system: \<^verbatim>\<open>Table.read(filename, format=fmt)\<close>, \<^verbatim>\<open>ts.write(filename, format=fmt,
  overwrite=True)\<close> with or without \<^verbatim>\<open>serialize_meta=True\<close>, and \<^verbatim>\<open>pickle.load\<close> and
  \<^verbatim>\<open>pickle.dump\<close> on the opened file.
\<close>

record 'fs library =
  table_read :: "'fs \<Rightarrow> string \<Rightarrow> string option \<Rightarrow> error + table"
  table_write :: "'fs \<Rightarrow> string \<Rightarrow> string option \<Rightarrow> bool \<Rightarrow> table \<Rightarrow> error + 'fs"
  pickle_load :: "'fs \<Rightarrow> string \<Rightarrow> error + pyobject"
  pickle_dump :: "'fs \<Rightarrow> string \<Rightarrow> pyobject \<Rightarrow> error + 'fs"

datatype warning = DeprecationWarning

text \<open>\<^verbatim>\<open>read\<close> returns what \<^verbatim>\<open>pickle.load\<close> gives, or the class from \<^verbatim>\<open>from_astropy_table\<close>.\<close>

datatype loaded = Unpickled pyobject | Class namespace

text \<open>
  The first statement of \<^verbatim>\<open>read\<close> and of \<^verbatim>\<open>write\<close>: the warnings issued and the value of
  \<^verbatim>\<open>fmt\<close> afterwards. \<open>format_kw\<close> is the keyword argument \<^verbatim>\<open>format_\<close>.
\<close>

definition deprecated_format ::
  "string option \<Rightarrow> string option \<Rightarrow> warning list \<times> string option"
where
  "deprecated_format fmt format_kw =
     (if fmt = None \<and> format_kw \<noteq> None then ([DeprecationWarning], format_kw) else ([], fmt))"

text \<open>\<^verbatim>\<open>fmt is None or "ascii" in fmt\<close>.\<close>

definition is_text_format :: "string option \<Rightarrow> bool" where
  "is_text_format fmt = (case fmt of None \<Rightarrow> True | Some f \<Rightarrow> str_contains ''ascii'' f)"

text \<open>
  Array arithmetic of the complex-number handling. numpy refuses arithmetic on strings and
  an in-place sum that would turn a float array complex. An in-place sum of arrays of
  different shapes is reported as \<^verbatim>\<open>ValueError\<close>, although numpy broadcasts some of them.
\<close>

fun times_1j :: "ndarray \<Rightarrow> error + ndarray" where
  "times_1j (FloatArray s xs) = Inr (ComplexArray s (map (\<lambda>x. complex_of_real x * \<i>) xs))"
| "times_1j (ComplexArray s zs) = Inr (ComplexArray s (map (\<lambda>z. z * \<i>) zs))"
| "times_1j a = Inl TypeError"

fun plus_0j :: "ndarray \<Rightarrow> error + ndarray" where
  "plus_0j (FloatArray s xs) = Inr (ComplexArray s (map (\<lambda>x. complex_of_real x + 0) xs))"
| "plus_0j (ComplexArray s zs) = Inr (ComplexArray s (map (\<lambda>z. z + 0) zs))"
| "plus_0j a = Inl TypeError"

fun iadd :: "ndarray \<Rightarrow> ndarray \<Rightarrow> error + ndarray" where
  "iadd (ComplexArray s zs) (ComplexArray s' ws) =
     (if s = s' then Inr (ComplexArray s (map2 (+) zs ws)) else Inl ValueError)"
| "iadd (ComplexArray s zs) (FloatArray s' xs) =
     (if s = s' then Inr (ComplexArray s (map2 (\<lambda>z x. z + complex_of_real x) zs xs))
      else Inl ValueError)"
| "iadd (FloatArray s xs) (FloatArray s' ys) =
     (if s = s' then Inr (FloatArray s (map2 (+) xs ys)) else Inl ValueError)"
| "iadd a b = Inl TypeError"

text \<open>\<^verbatim>\<open>ts[name] = value\<close> and \<^verbatim>\<open>ts.remove_column(name)\<close>.\<close>

definition setitem :: "(string \<times> ndarray) list \<Rightarrow> string \<Rightarrow> ndarray \<Rightarrow> (string \<times> ndarray) list" where
  "setitem cols name a = AList.update name a cols"

definition remove_column :: "(string \<times> ndarray) list \<Rightarrow> string \<Rightarrow> (string \<times> ndarray) list" where
  "remove_column cols name = AList.delete name cols"

text \<open>
  One round of the loop in \<^verbatim>\<open>read\<close> for a column that is not skipped, from
  \<^verbatim>\<open>new_value = ts[col]\<close> on. \<open>is_imag\<close> is the variable of that name, \<open>None\<close> while it
  has not been assigned.
\<close>

definition merge_half ::
  "string \<Rightarrow> bool option \<Rightarrow> (string \<times> ndarray) list \<Rightarrow> error + (string \<times> ndarray) list"
where
  "merge_half col is_imag cols =
     (case getitem cols col of
        Inl e \<Rightarrow> Inl e
      | Inr new_value \<Rightarrow>
          (case is_imag of
             None \<Rightarrow> Inl UnboundLocalError
           | Some imag \<Rightarrow>
               (case (if imag then times_1j new_value else Inr new_value) of
                  Inl e \<Rightarrow> Inl e
                | Inr new_value1 \<Rightarrow>
                    (case plus_0j new_value1 of
                       Inl e \<Rightarrow> Inl e
                     | Inr new_value2 \<Rightarrow>
                         (let col_strip = str_remove ''.imag'' (str_remove ''.real'' col) in
                          if col_strip \<notin> set (map fst cols)
                          then Inr (remove_column (setitem cols col_strip new_value2) col)
                          else
                            (case getitem cols col_strip of
                               Inl e \<Rightarrow> Inl e
                             | Inr old \<Rightarrow>
                                 (case iadd old new_value2 of
                                    Inl e \<Rightarrow> Inl e
                                  | Inr summed \<Rightarrow>
                                      Inr (remove_column (setitem cols col_strip summed) col))))))))"

text \<open>
  The loop \<^verbatim>\<open>for col in ts.colnames\<close> of \<^verbatim>\<open>read\<close>, over the names the table had when the
  loop began. In \<^verbatim>\<open>(is_real := col.endswith(".real")) or (is_imag := col.endswith(".imag"))\<close>
  the right operand is evaluated, and \<open>is_imag\<close> assigned, only when the left one is
  false; otherwise \<open>is_imag\<close> keeps what an earlier round left in it.
\<close>

fun merge_complex ::
  "string list \<Rightarrow> bool option \<Rightarrow> (string \<times> ndarray) list \<Rightarrow> error + (string \<times> ndarray) list"
where
  "merge_complex [] is_imag cols = Inr cols"
| "merge_complex (col # rest) is_imag cols =
     (let is_real = endswith col ''.real'';
          is_imag' = (if is_real then is_imag else Some (endswith col ''.imag''))
      in if \<not> (is_real \<or> is_imag' = Some True) then merge_complex rest is_imag' cols
         else
           (case merge_half col is_imag' cols of
              Inl e \<Rightarrow> Inl e
            | Inr cols' \<Rightarrow> merge_complex rest is_imag' cols'))"

text \<open>Everything in \<^verbatim>\<open>read\<close> from \<^verbatim>\<open>Table.read\<close> on.\<close>

definition read_table ::
  "'fs library \<Rightarrow> namespace \<Rightarrow> 'fs \<Rightarrow> string \<Rightarrow> string option \<Rightarrow> error + loaded"
where
  "read_table lib cls fs filename fmt =
     (case table_read lib fs filename fmt of
        Inl e \<Rightarrow> Inl e
      | Inr ts \<Rightarrow>
          (case (if is_text_format fmt then merge_complex (colnames ts) None (columns ts)
                 else Inr (columns ts)) of
             Inl e \<Rightarrow> Inl e
           | Inr cols \<Rightarrow>
               (case from_astropy_table cls (ts\<lparr>columns := cols\<rparr>) of
                  Inl e \<Rightarrow> Inl e
                | Inr cls' \<Rightarrow> Inr (Class cls'))))"

definition read ::
  "'fs library \<Rightarrow> namespace \<Rightarrow> 'fs \<Rightarrow> string \<Rightarrow> string option \<Rightarrow> string option
   \<Rightarrow> warning list \<times> (error + loaded)"
where
  "read lib cls fs filename fmt format_kw =
     (let (warnings, fmt) = deprecated_format fmt format_kw in
      (warnings,
       (case fmt of
          None \<Rightarrow> read_table lib cls fs filename None
        | Some f \<Rightarrow>
            if lower f = ''pickle'' then
              (case pickle_load lib fs filename of
                 Inl e \<Rightarrow> Inl e
               | Inr obj \<Rightarrow> Inr (Unpickled obj))
            else if lower f = ''ascii'' then read_table lib cls fs filename (Some ''ascii.ecsv'')
            else read_table lib cls fs filename (Some f))))"

text \<open>
  \<^verbatim>\<open>np.iscomplex(ts[col][0])\<close> used as a condition: the first row's elements with a
  non-zero imaginary part. A table without rows has no first row, and the truth value of
  a row that is an array is defined only when it has one element.
\<close>

fun has_imag :: "ndarray \<Rightarrow> bool list" where
  "has_imag (ComplexArray s zs) = map (\<lambda>z. Im z \<noteq> 0) zs"
| "has_imag (FloatArray s xs) = map (\<lambda>x. False) xs"
| "has_imag (StrArray s ss) = map (\<lambda>x. False) ss"
| "has_imag ObjectArray = [False]"

definition first_iscomplex :: "ndarray \<Rightarrow> error + bool" where
  "first_iscomplex a =
     (case shape a of
        [] \<Rightarrow> Inl IndexError
      | n # rest \<Rightarrow>
          if n = 0 then Inl IndexError
          else (case take (prod_list rest) (has_imag a) of
                  [b] \<Rightarrow> Inr b
                | _ \<Rightarrow> Inl ValueError))"

text \<open>\<^verbatim>\<open>a.real\<close> and \<^verbatim>\<open>a.imag\<close>; the writer takes them of complex columns only.\<close>

fun real_part :: "ndarray \<Rightarrow> ndarray" where
  "real_part (ComplexArray s zs) = FloatArray s (map Re zs)"
| "real_part a = a"

fun imag_part :: "ndarray \<Rightarrow> ndarray" where
  "imag_part (ComplexArray s zs) = FloatArray s (map Im zs)"
| "imag_part (FloatArray s xs) = FloatArray s (map (\<lambda>x. 0) xs)"
| "imag_part a = a"

text \<open>The loop \<^verbatim>\<open>for col in ts.colnames\<close> of \<^verbatim>\<open>write\<close>.\<close>

fun split_complex ::
  "string list \<Rightarrow> (string \<times> ndarray) list \<Rightarrow> error + (string \<times> ndarray) list"
where
  "split_complex [] cols = Inr cols"
| "split_complex (col # rest) cols =
     (case getitem cols col of
        Inl e \<Rightarrow> Inl e
      | Inr a \<Rightarrow>
          (case first_iscomplex a of
             Inl e \<Rightarrow> Inl e
           | Inr True \<Rightarrow>
               split_complex rest
                 (remove_column
                    (setitem (setitem cols (col @ ''.real'') (real_part a))
                       (col @ ''.imag'') (imag_part a))
                    col)
           | Inr False \<Rightarrow> split_complex rest cols))"

text \<open>Everything in \<^verbatim>\<open>write\<close> from \<^verbatim>\<open>to_astropy_table\<close> on.\<close>

definition write_table ::
  "'fs library \<Rightarrow> pyobject \<Rightarrow> 'fs \<Rightarrow> string \<Rightarrow> string option \<Rightarrow> error + 'fs"
where
  "write_table lib self fs filename fmt =
     (case to_astropy_table self of
        Inl e \<Rightarrow> Inl e
      | Inr ts \<Rightarrow>
          (case (if is_text_format fmt then split_complex (colnames ts) (columns ts)
                 else Inr (columns ts)) of
             Inl e \<Rightarrow> Inl e
           | Inr cols \<Rightarrow>
               (case table_write lib fs filename fmt True (ts\<lparr>columns := cols\<rparr>) of
                  Inl e \<Rightarrow>
                    if e = TypeError
                    then table_write lib fs filename fmt False (ts\<lparr>columns := cols\<rparr>)
                    else Inl e
                | Inr fs' \<Rightarrow> Inr fs')))"

text \<open>\<^verbatim>\<open>write\<close>; the file system goes in and comes out.\<close>

definition write_file ::
  "'fs library \<Rightarrow> pyobject \<Rightarrow> 'fs \<Rightarrow> string \<Rightarrow> string option \<Rightarrow> string option
   \<Rightarrow> warning list \<times> (error + 'fs)"
where
  "write_file lib self fs filename fmt format_kw =
     (let (warnings, fmt) = deprecated_format fmt format_kw in
      (warnings,
       (case fmt of
          None \<Rightarrow> write_table lib self fs filename None
        | Some f \<Rightarrow>
            if lower f = ''pickle'' then pickle_dump lib fs filename self
            else if lower f = ''ascii'' then write_table lib self fs filename (Some ''ascii.ecsv'')
            else write_table lib self fs filename (Some f))))"

text \<open>
  A file system in memory with lossless codecs: a file holds the table or the object that
  was written to it, whatever the format, and the writer takes \<^verbatim>\<open>serialize_meta\<close>.
\<close>

datatype filedata = TableFile table | PickleFile pyobject

definition memory_library :: "(string \<Rightarrow> filedata option) library" where
  "memory_library =
     \<lparr>table_read = (\<lambda>fs filename fmt.
          case fs filename of
            None \<Rightarrow> Inl FileNotFoundError
          | Some (TableFile ts) \<Rightarrow> Inr ts
          | Some (PickleFile obj) \<Rightarrow> Inl ValueError),
      table_write = (\<lambda>fs filename fmt serialize_meta ts. Inr (fs(filename \<mapsto> TableFile ts))),
      pickle_load = (\<lambda>fs filename.
          case fs filename of
            None \<Rightarrow> Inl FileNotFoundError
          | Some (TableFile ts) \<Rightarrow> Inl UnpicklingError
          | Some (PickleFile obj) \<Rightarrow> Inr obj),
      pickle_dump = (\<lambda>fs filename obj. Inr (fs(filename \<mapsto> PickleFile obj)))\<rparr>"

section \<open>Example objects\<close>

text \<open>
  A light curve with two bins: \<^verbatim>\<open>time\<close> is the main array, \<^verbatim>\<open>counts\<close> and \<^verbatim>\<open>_mask\<close> have
  its shape, \<^verbatim>\<open>gti\<close> has another shape, \<^verbatim>\<open>mission\<close> is \<^verbatim>\<open>None\<close> and \<^verbatim>\<open>parent\<close> is another
  Stingray object.
\<close>

definition lightcurve_class :: namespace where
  "lightcurve_class =
     [(''main_array_attr'', PyStr ''time''),
      (''__doc__'', PyStr ''A light curve''),
      (''__init__'', PyCallable),
      (''array_attrs'', PyCallable),
      (''meta_attrs'', PyCallable),
      (''get_meta_dict'', PyCallable)]"

definition lightcurve :: pyobject where
  "lightcurve =
     \<lparr>cls_dict = lightcurve_class,
      inst_dict =
        [(''time'', PyArray (FloatArray [2] [0, 1])),
         (''counts'', PyArray (FloatArray [2] [5, 7])),
         (''_mask'', PyArray (FloatArray [2] [1, 1])),
         (''gti'', PyArray (FloatArray [1, 2] [0, 2])),
         (''mjdref'', PyFloat 55000),
         (''mission'', PyNone),
         (''parent'', PyInstance [''main_array_attr'', ''meta_attrs''])]\<rparr>"

text \<open>
  An object of the same class with the main array \<^verbatim>\<open>time\<close> and the complex array
  \<^verbatim>\<open>z = [1+2j, 3-4j]\<close>, and the table that \<^verbatim>\<open>write\<close> makes of it for a text format.
\<close>

definition z_object :: "real \<Rightarrow> real \<Rightarrow> pyobject" where
  "z_object t0 t1 =
     \<lparr>cls_dict = lightcurve_class,
      inst_dict =
        [(''time'', PyArray (FloatArray [2] [t0, t1])),
         (''z'', PyArray (ComplexArray [2] [Complex 1 2, Complex 3 (- 4)]))]\<rparr>"

definition z_table :: "real \<Rightarrow> real \<Rightarrow> table" where
  "z_table t0 t1 =
     \<lparr>columns =
        [(''time'', FloatArray [2] [t0, t1]),
         (''z.real'', FloatArray [2] [1, 3]),
         (''z.imag'', FloatArray [2] [2, - 4])],
      meta = [(''main_array_attr'', PyStr ''time'')]\<rparr>"

text \<open>
  Two tables with the same three columns in other orders: the imaginary half before the
  real half, and the real half as the first column of the table.
\<close>

definition imag_first_table :: table where
  "imag_first_table =
     \<lparr>columns =
        [(''time'', FloatArray [2] [0, 1]),
         (''z.imag'', FloatArray [2] [2, - 4]),
         (''z.real'', FloatArray [2] [1, 3])],
      meta = []\<rparr>"

definition real_first_table :: table where
  "real_first_table =
     \<lparr>columns =
        [(''z.real'', FloatArray [2] [1, 3]),
         (''z.imag'', FloatArray [2] [2, - 4]),
         (''time'', FloatArray [2] [0, 1])],
      meta = []\<rparr>"



section \<open>Attribute lookup and \<^verbatim>\<open>dir\<close>\<close>

lemma dir_set: "set (dir obj) = fst ` set (inst_dict obj) \<union> fst ` set (cls_dict obj)"
  by (simp add: dir_def)

lemma dir_distinct: "distinct (dir obj)"
  by (simp add: dir_def)

lemma lookup_attr_None: "(lookup_attr obj a = None) = (a \<notin> set (dir obj))"
  by (simp add: lookup_attr_def dir_set map_of_eq_None_iff[symmetric] split: option.splits)

lemma getattr_Inr_iff: "(getattr obj a = Inr v) = (lookup_attr obj a = Some v)"
  by (simp add: getattr_def split: option.splits)

lemma getattr_in_dir: "getattr obj a = Inr v \<Longrightarrow> a \<in> set (dir obj)"
  using lookup_attr_None[of obj a] by (simp add: getattr_Inr_iff)

lemma update_fresh: "k \<notin> fst ` set xs \<Longrightarrow> AList.update k v xs = xs @ [(k, v)]"
  by (induction xs) auto

section \<open>The example objects evaluated\<close>

lemma lightcurve_fields:
  "cls_dict lightcurve =
     [(''main_array_attr'', PyStr ''time''),
      (''__doc__'', PyStr ''A light curve''),
      (''__init__'', PyCallable),
      (''array_attrs'', PyCallable),
      (''meta_attrs'', PyCallable),
      (''get_meta_dict'', PyCallable)]"
  "inst_dict lightcurve =
        [(''time'', PyArray (FloatArray [2] [0, 1])),
         (''counts'', PyArray (FloatArray [2] [5, 7])),
         (''_mask'', PyArray (FloatArray [2] [1, 1])),
         (''gti'', PyArray (FloatArray [1, 2] [0, 2])),
         (''mjdref'', PyFloat 55000),
         (''mission'', PyNone),
         (''parent'', PyInstance [''main_array_attr'', ''meta_attrs''])]"
  by (simp_all add: lightcurve_def lightcurve_class_def)

lemma lightcurve_dir:
  "dir lightcurve =
     [''__doc__'', ''__init__'', ''_mask'', ''array_attrs'', ''counts'', ''get_meta_dict'',
      ''gti'', ''main_array_attr'', ''meta_attrs'', ''mission'', ''mjdref'', ''parent'', ''time'']"
  by (simp add: dir_def lightcurve_fields)

lemmas lightcurve_defs = lightcurve_fields getattr_def lookup_attr_def

lemma lightcurve_main: "main_attr_of lightcurve = Inr (PyArray (FloatArray [2] [0, 1]))"
  by (simp add: main_attr_of_def lightcurve_defs)

lemma lightcurve_array_attrs: "array_attrs lightcurve = Inr [''_mask'', ''counts'', ''time'']"
  by (simp add: array_attrs_def lightcurve_main lightcurve_dir is_array_attr_def lightcurve_defs)

lemma lightcurve_meta_attrs:
  "meta_attrs lightcurve = Inr [''gti'', ''main_array_attr'', ''mission'', ''mjdref'']"
  by (simp add: meta_attrs_def lightcurve_array_attrs lightcurve_dir is_meta_attr_def
        startswith_def lightcurve_defs)

lemma lightcurve_meta_dict:
  "get_meta_dict lightcurve =
     Inr [(''gti'', PyArray (FloatArray [1, 2] [0, 2])),
          (''main_array_attr'', PyStr ''time''),
          (''mjdref'', PyFloat 55000)]"
  by (simp add: get_meta_dict_def lightcurve_meta_attrs setattr_def lightcurve_defs)


lemma z_object_fields:
  "cls_dict (z_object t0 t1) = lightcurve_class"
  "inst_dict (z_object t0 t1) =
        [(''time'', PyArray (FloatArray [2] [t0, t1])),
         (''z'', PyArray (ComplexArray [2] [Complex 1 2, Complex 3 (- 4)]))]"
  by (simp_all add: z_object_def)

lemma z_object_dir:
  "dir (z_object t0 t1) =
     [''__doc__'', ''__init__'', ''array_attrs'', ''get_meta_dict'', ''main_array_attr'',
      ''meta_attrs'', ''time'', ''z'']"
  by (simp add: dir_def z_object_fields lightcurve_class_def)

lemmas z_object_defs = z_object_fields lightcurve_class_def getattr_def lookup_attr_def

lemma z_object_main: "main_attr_of (z_object t0 t1) = Inr (PyArray (FloatArray [2] [t0, t1]))"
  by (simp add: main_attr_of_def z_object_defs)

lemma z_object_array_attrs: "array_attrs (z_object t0 t1) = Inr [''time'', ''z'']"
  by (simp add: array_attrs_def z_object_main z_object_dir is_array_attr_def z_object_defs)

lemma z_object_meta_attrs: "meta_attrs (z_object t0 t1) = Inr [''main_array_attr'']"
  by (simp add: meta_attrs_def z_object_array_attrs z_object_dir is_meta_attr_def
        startswith_def z_object_defs)

lemma z_object_meta_dict:
  "get_meta_dict (z_object t0 t1) = Inr [(''main_array_attr'', PyStr ''time'')]"
  by (simp add: get_meta_dict_def z_object_meta_attrs setattr_def z_object_defs)

lemma z_object_table:
  "to_astropy_table (z_object t0 t1) =
     Inr \<lparr>columns =
            [(''time'', FloatArray [2] [t0, t1]),
             (''z'', ComplexArray [2] [Complex 1 2, Complex 3 (- 4)])],
          meta = [(''main_array_attr'', PyStr ''time'')]\<rparr>"
  by (simp add: to_astropy_table_def z_object_array_attrs z_object_meta_dict table_init_def
        dict_update_def z_object_defs)







section \<open>Construction\<close>

text \<open>
  Claim C9. Constructing a StingrayObject raises \<^verbatim>\<open>RuntimeError\<close> exactly when neither the
  instance nor its class has an attribute \<^verbatim>\<open>main_array_attr\<close>; when it is there,
  construction succeeds, returns the object as it was, and the attribute can be read.
\<close>

theorem init_needs_main_array_attr:
  "(init self = Inl RuntimeError \<longleftrightarrow>
      ''main_array_attr'' \<notin> fst ` set (inst_dict self) \<union> fst ` set (cls_dict self)) \<and>
   (init self = Inr self \<longleftrightarrow>
      ''main_array_attr'' \<in> fst ` set (inst_dict self) \<union> fst ` set (cls_dict self)) \<and>
   (\<forall>obj. init self = Inr obj \<longrightarrow> obj = self \<and> (\<exists>v. getattr self ''main_array_attr'' = Inr v))"
  using lookup_attr_None[of self "''main_array_attr''"]
  by (auto simp: init_def hasattr_def dir_set getattr_def split: option.splits)

text \<open>
  The light curve is constructed; an object without the declaration is refused.
\<close>

theorem init_needs_main_array_attr_witness:
  "init lightcurve = Inr lightcurve \<and>
   init \<lparr>cls_dict = [(''__doc__'', PyStr ''A light curve'')],
         inst_dict = [(''time'', PyArray (FloatArray [2] [0, 1]))]\<rparr> = Inl RuntimeError"
  using init_needs_main_array_attr[of lightcurve]
    init_needs_main_array_attr[of "\<lparr>cls_dict = [(''__doc__'', PyStr ''A light curve'')],
         inst_dict = [(''time'', PyArray (FloatArray [2] [0, 1]))]\<rparr>"]
  by (simp add: lightcurve_fields)

section \<open>Array attributes\<close>

lemma array_attrs_cases:
  assumes "main_attr_of self = Inr main_attr"
  shows "array_attrs self =
           Inr (if main_attr = PyNone then [] else filter (is_array_attr self main_attr) (dir self))"
  using assms by (simp add: array_attrs_def)

lemma is_array_attr_iff:
  "is_array_attr self main_attr a =
     (\<exists>v. getattr self a = Inr v \<and> is_iterable v \<and> np_shape v = np_shape main_attr)"
  by (simp add: is_array_attr_def getattr_Inr_iff split: option.splits)

lemma np_shape_iterable: "np_shape v \<noteq> [] \<Longrightarrow> is_iterable v"
  by (cases v) simp_all


text \<open>
  Claim C2. When the main attribute has a value, \<^verbatim>\<open>array_attrs\<close> returns a list without
  repetition. If the value is \<^verbatim>\<open>None\<close> the list is empty. Otherwise a name is in the list
  exactly when it is an attribute whose value is iterable and has the shape of the main
  attribute's value. So an attribute holding an array of that shape is in the list; when
  the main value has at least one dimension, every attribute with a value of that shape
  is in the list; and an attribute of any other shape is not.
\<close>

theorem array_attrs_exact:
  assumes "main_attr_of self = Inr main_attr"
  shows "\<exists>names. array_attrs self = Inr names \<and> distinct names \<and>
           (main_attr = PyNone \<longrightarrow> names = []) \<and>
           (main_attr \<noteq> PyNone \<longrightarrow>
              (\<forall>a. a \<in> set names \<longleftrightarrow>
                 (\<exists>v. getattr self a = Inr v \<and> is_iterable v \<and> np_shape v = np_shape main_attr)) \<and>
              (\<forall>a x. getattr self a = Inr (PyArray x) \<and> shape x = np_shape main_attr
                 \<longrightarrow> a \<in> set names) \<and>
              (np_shape main_attr \<noteq> [] \<longrightarrow>
                 (\<forall>a v. getattr self a = Inr v \<and> np_shape v = np_shape main_attr
                    \<longrightarrow> a \<in> set names)) \<and>
              (\<forall>a v. getattr self a = Inr v \<and> np_shape v \<noteq> np_shape main_attr
                 \<longrightarrow> a \<notin> set names))"
proof (cases "main_attr = PyNone")
  case True
  then show ?thesis using array_attrs_cases[OF assms] by simp
next
  case False
  let ?names = "filter (is_array_attr self main_attr) (dir self)"
  have eq: "array_attrs self = Inr ?names"
    using array_attrs_cases[OF assms] False by simp
  have mem: "a \<in> set ?names \<longleftrightarrow>
      (\<exists>v. getattr self a = Inr v \<and> is_iterable v \<and> np_shape v = np_shape main_attr)" for a
    using getattr_in_dir[of self a] by (auto simp: is_array_attr_iff)
  have d: "distinct ?names" by (simp add: dir_distinct)
  have p1: "\<forall>a x. getattr self a = Inr (PyArray x) \<and> shape x = np_shape main_attr
                 \<longrightarrow> a \<in> set ?names"
    unfolding mem by auto
  have p2: "np_shape main_attr \<noteq> [] \<longrightarrow>
                 (\<forall>a v. getattr self a = Inr v \<and> np_shape v = np_shape main_attr
                    \<longrightarrow> a \<in> set ?names)"
    unfolding mem using np_shape_iterable by metis
  have p3: "\<forall>a v. getattr self a = Inr v \<and> np_shape v \<noteq> np_shape main_attr
                 \<longrightarrow> a \<notin> set ?names"
    unfolding mem by auto
  show ?thesis
    apply (rule exI[of _ ?names])
    apply (intro conjI impI)
          apply (rule eq)
         apply (rule d)
        apply (simp add: False)
       apply (intro allI, rule mem)
      apply (rule p1)
     apply (rule p2[THEN mp], assumption)
    apply (rule p3)
    done
qed

text \<open>
  For the light curve, \<^verbatim>\<open>counts\<close> of shape (2,) is listed and \<^verbatim>\<open>gti\<close> of shape (1, 2) is
  not.
\<close>

theorem array_attrs_exact_witness:
  "main_attr_of lightcurve = Inr (PyArray (FloatArray [2] [0, 1])) \<and>
   array_attrs lightcurve = Inr [''_mask'', ''counts'', ''time''] \<and>
   getattr lightcurve ''counts'' = Inr (PyArray (FloatArray [2] [5, 7])) \<and>
   getattr lightcurve ''gti'' = Inr (PyArray (FloatArray [1, 2] [0, 2])) \<and>
   ''counts'' \<in> set [''_mask'', ''counts'', ''time''] \<and>
   ''gti'' \<notin> set [''_mask'', ''counts'', ''time'']"
proof -
  have h: "main_attr_of lightcurve = Inr (PyArray (FloatArray [2] [0, 1]))"
    by (rule lightcurve_main)
  have c: "getattr lightcurve ''counts'' = Inr (PyArray (FloatArray [2] [5, 7]))"
    by (simp add: lightcurve_defs)
  have g: "getattr lightcurve ''gti'' = Inr (PyArray (FloatArray [1, 2] [0, 2]))"
    by (simp add: lightcurve_defs)
  from array_attrs_exact[OF h] obtain names where
    n: "array_attrs lightcurve = Inr names" and
    a: "\<forall>a x. getattr lightcurve a = Inr (PyArray x) \<and> shape x = np_shape (PyArray (FloatArray [2] [0, 1]))
                 \<longrightarrow> a \<in> set names" and
    b: "\<forall>a v. getattr lightcurve a = Inr v \<and> np_shape v \<noteq> np_shape (PyArray (FloatArray [2] [0, 1]))
                 \<longrightarrow> a \<notin> set names"
    by auto
  have names: "names = [''_mask'', ''counts'', ''time'']"
    using n by (simp add: lightcurve_array_attrs)
  have "''counts'' \<in> set names" using a c by simp
  moreover have "''gti'' \<notin> set names" using b g by simp
  ultimately show ?thesis using h c g n names by simp
qed

section \<open>The main array among the array attributes and the columns\<close>










section \<open>Meta attributes\<close>

lemma is_meta_attr_iff:
  "is_meta_attr self arr a =
     (\<exists>v. getattr self a = Inr v \<and> a \<notin> set arr \<and> \<not> startswith a ''_'' \<and>
          \<not> callable v \<and> \<not> value_hasattr v ''meta_attrs'')"
  by (auto simp add: is_meta_attr_def getattr_Inr_iff split: option.splits)

text \<open>
  Claim C6. When \<^verbatim>\<open>array_attrs\<close> returns, \<^verbatim>\<open>meta_attrs\<close> returns a list without repetition
  of exactly the attribute names that are not array attributes, do not start with an
  underscore, and hold a value that is not callable and has no attribute \<^verbatim>\<open>meta_attrs\<close>
  of its own; so an attribute holding another Stingray object is never listed.
\<close>

theorem meta_attrs_exact:
  assumes "array_attrs self = Inr arr"
  shows "\<exists>names. meta_attrs self = Inr names \<and> distinct names \<and>
           (\<forall>a. a \<in> set names \<longleftrightarrow>
              (\<exists>v. getattr self a = Inr v \<and> a \<notin> set arr \<and> \<not> startswith a ''_'' \<and>
                   \<not> callable v \<and> \<not> value_hasattr v ''meta_attrs'')) \<and>
           (\<forall>a ns. getattr self a = Inr (PyInstance ns) \<and> ''meta_attrs'' \<in> set ns
              \<longrightarrow> a \<notin> set names)"
proof -
  let ?names = "filter (is_meta_attr self arr) (dir self)"
  have eq: "meta_attrs self = Inr ?names" using assms by (simp add: meta_attrs_def)
  have mem: "a \<in> set ?names \<longleftrightarrow>
      (\<exists>v. getattr self a = Inr v \<and> a \<notin> set arr \<and> \<not> startswith a ''_'' \<and>
                   \<not> callable v \<and> \<not> value_hasattr v ''meta_attrs'')" for a
    using getattr_in_dir[of self a] by (auto simp: is_meta_attr_iff)
  have "\<forall>a ns. getattr self a = Inr (PyInstance ns) \<and> ''meta_attrs'' \<in> set ns
              \<longrightarrow> a \<notin> set ?names"
    unfolding mem by auto
  then show ?thesis using eq mem dir_distinct[of self] by (intro exI[of _ ?names]) simp
qed

text \<open>
  For the light curve, \<^verbatim>\<open>parent\<close> is not a meta attribute.
\<close>

theorem meta_attrs_exact_witness:
  "array_attrs lightcurve = Inr [''_mask'', ''counts'', ''time''] \<and>
   meta_attrs lightcurve = Inr [''gti'', ''main_array_attr'', ''mission'', ''mjdref''] \<and>
   getattr lightcurve ''parent'' = Inr (PyInstance [''main_array_attr'', ''meta_attrs'']) \<and>
   ''parent'' \<notin> set [''gti'', ''main_array_attr'', ''mission'', ''mjdref'']"
proof -
  have h: "array_attrs lightcurve = Inr [''_mask'', ''counts'', ''time'']"
    by (rule lightcurve_array_attrs)
  have p: "getattr lightcurve ''parent'' = Inr (PyInstance [''main_array_attr'', ''meta_attrs''])"
    by (simp add: lightcurve_defs)
  from meta_attrs_exact[OF h] obtain names where
    n: "meta_attrs lightcurve = Inr names" and
    a: "\<forall>a ns. getattr lightcurve a = Inr (PyInstance ns) \<and> ''meta_attrs'' \<in> set ns
              \<longrightarrow> a \<notin> set names"
    by auto
  have names: "names = [''gti'', ''main_array_attr'', ''mission'', ''mjdref'']"
    using n by (simp add: lightcurve_meta_attrs)
  have "''parent'' \<notin> set names" using a p by simp
  then show ?thesis using h p n names by simp
qed

section \<open>The meta dictionary\<close>

lemma meta_dict_loop_eq:
  assumes "set keys \<subseteq> set (dir self)" "distinct keys" "set keys \<inter> fst ` set acc = {}"
  shows "meta_dict_loop self keys acc =
     Inr (acc @ map (\<lambda>k. (k, the (lookup_attr self k)))
                  (filter (\<lambda>k. lookup_attr self k \<noteq> Some PyNone) keys))"
  using assms
proof (induction keys arbitrary: acc)
  case Nil
  then show ?case by simp
next
  case (Cons key keys)
  from Cons.prems(1) obtain v where v: "lookup_attr self key = Some v"
    using lookup_attr_None[of self key] by auto
  have fresh: "key \<notin> fst ` set acc" using Cons.prems(3) by auto
  show ?case
  proof (cases "v = PyNone")
    case True
    then show ?thesis using Cons v by (simp add: getattr_def)
  next
    case False
    have "set keys \<inter> fst ` set (setattr acc key v) = {}"
      using Cons.prems(2,3) by (auto simp: setattr_def update_fresh[OF fresh])
    then have "meta_dict_loop self keys (setattr acc key v) =
       Inr (setattr acc key v @ map (\<lambda>k. (k, the (lookup_attr self k)))
                  (filter (\<lambda>k. lookup_attr self k \<noteq> Some PyNone) keys))"
      using Cons.IH[of "setattr acc key v"] Cons.prems(1,2) by simp
    then show ?thesis using False v by (simp add: getattr_def setattr_def update_fresh[OF fresh])
  qed
qed

lemma meta_attrs_subset_dir: "meta_attrs self = Inr names \<Longrightarrow> set names \<subseteq> set (dir self) \<and> distinct names"
  by (auto simp: meta_attrs_def dir_distinct split: sum.splits)

lemma get_meta_dict_eq:
  assumes "meta_attrs self = Inr names"
  shows "get_meta_dict self =
     Inr (map (\<lambda>k. (k, the (lookup_attr self k)))
                  (filter (\<lambda>k. lookup_attr self k \<noteq> Some PyNone) names))"
  using meta_dict_loop_eq[of names self "[]"] meta_attrs_subset_dir[OF assms] assms
  by (simp add: get_meta_dict_def)

lemma meta_dict_items:
  assumes "meta_attrs self = Inr keys"
  shows "\<exists>md. get_meta_dict self = Inr md \<and> distinct (map fst md) \<and>
           (\<forall>k v. (k, v) \<in> set md \<longleftrightarrow> k \<in> set keys \<and> getattr self k = Inr v \<and> v \<noteq> PyNone)"
proof -
  let ?d = "map (\<lambda>k. (k, the (lookup_attr self k)))
                  (filter (\<lambda>k. lookup_attr self k \<noteq> Some PyNone) keys)"
  have sub: "set keys \<subseteq> set (dir self)" and dn: "distinct keys"
    using meta_attrs_subset_dir[OF assms] by auto
  have eq: "get_meta_dict self = Inr ?d" by (rule get_meta_dict_eq[OF assms])
  have dist: "distinct (map fst ?d)" using dn by (simp add: comp_def)
  have mem: "(k, v) \<in> set ?d \<longleftrightarrow> k \<in> set keys \<and> getattr self k = Inr v \<and> v \<noteq> PyNone" for k v
  proof
    assume "(k, v) \<in> set ?d"
    then have k: "k \<in> set keys" and nn: "lookup_attr self k \<noteq> Some PyNone"
      and v: "v = the (lookup_attr self k)" by auto
    from k sub obtain w where "lookup_attr self k = Some w"
      using lookup_attr_None[of self k] by auto
    with nn v k show "k \<in> set keys \<and> getattr self k = Inr v \<and> v \<noteq> PyNone"
      by (simp add: getattr_Inr_iff)
  next
    assume "k \<in> set keys \<and> getattr self k = Inr v \<and> v \<noteq> PyNone"
    then show "(k, v) \<in> set ?d" by (auto simp: getattr_Inr_iff image_iff)
  qed
  show ?thesis
    apply (rule exI[of _ ?d])
    apply (intro conjI)
      apply (rule eq)
     apply (rule dist)
    apply (intro allI, rule mem)
    done
qed

text \<open>
  Claim C7. When \<^verbatim>\<open>meta_attrs\<close> returns, \<^verbatim>\<open>get_meta_dict\<close> returns a dictionary with
  distinct keys whose items are exactly the meta attributes with a value other than
  \<^verbatim>\<open>None\<close>, paired with that value: every such attribute can be looked up, and no key
  is bound to \<^verbatim>\<open>None\<close>. The function reads the object and returns only the dictionary;
  no changed object comes out of it.
\<close>

theorem get_meta_dict_non_none:
  assumes "meta_attrs self = Inr names"
  shows "\<exists>d. get_meta_dict self = Inr d \<and> distinct (map fst d) \<and>
           (\<forall>k v. (k, v) \<in> set d \<longleftrightarrow> k \<in> set names \<and> getattr self k = Inr v \<and> v \<noteq> PyNone) \<and>
           (\<forall>k \<in> set names. \<forall>v. getattr self k = Inr v \<and> v \<noteq> PyNone \<longrightarrow> map_of d k = Some v) \<and>
           (\<forall>k. map_of d k \<noteq> Some PyNone)"
proof -
  from meta_dict_items[OF assms] obtain d where
    eq: "get_meta_dict self = Inr d" and dist: "distinct (map fst d)" and
    mem: "\<forall>k v. (k, v) \<in> set d \<longleftrightarrow> k \<in> set names \<and> getattr self k = Inr v \<and> v \<noteq> PyNone"
    by blast
  have look: "\<forall>k \<in> set names. \<forall>v. getattr self k = Inr v \<and> v \<noteq> PyNone \<longrightarrow> map_of d k = Some v"
  proof (intro ballI allI impI)
    fix k v assume "k \<in> set names" "getattr self k = Inr v \<and> v \<noteq> PyNone"
    then have "(k, v) \<in> set d" using mem by blast
    then show "map_of d k = Some v" using dist by (rule map_of_is_SomeI[rotated])
  qed
  have nonone: "\<forall>k. map_of d k \<noteq> Some PyNone"
  proof (intro allI notI)
    fix k assume "map_of d k = Some PyNone"
    then have "(k, PyNone) \<in> set d" by (rule map_of_SomeD)
    then show False using mem by blast
  qed
  show ?thesis
    apply (rule exI[of _ d])
    apply (intro conjI)
        apply (rule eq)
       apply (rule dist)
      apply (rule mem)
     apply (rule look)
    apply (rule nonone)
    done
qed

text \<open>
  For the light curve, \<^verbatim>\<open>mjdref\<close> is in the dictionary and \<^verbatim>\<open>mission\<close>, which is
  \<^verbatim>\<open>None\<close>, is not.
\<close>

theorem get_meta_dict_non_none_witness:
  "meta_attrs lightcurve = Inr [''gti'', ''main_array_attr'', ''mission'', ''mjdref''] \<and>
   getattr lightcurve ''mission'' = Inr PyNone \<and>
   getattr lightcurve ''mjdref'' = Inr (PyFloat 55000) \<and>
   get_meta_dict lightcurve =
     Inr [(''gti'', PyArray (FloatArray [1, 2] [0, 2])),
          (''main_array_attr'', PyStr ''time''),
          (''mjdref'', PyFloat 55000)] \<and>
   map_of [(''gti'', PyArray (FloatArray [1, 2] [0, 2])),
          (''main_array_attr'', PyStr ''time''),
          (''mjdref'', PyFloat 55000)] ''mjdref'' = Some (PyFloat 55000) \<and>
   map_of [(''gti'', PyArray (FloatArray [1, 2] [0, 2])),
          (''main_array_attr'', PyStr ''time''),
          (''mjdref'', PyFloat 55000)] ''mission'' = None"
proof -
  have h: "meta_attrs lightcurve = Inr [''gti'', ''main_array_attr'', ''mission'', ''mjdref'']"
    by (rule lightcurve_meta_attrs)
  have m: "getattr lightcurve ''mission'' = Inr PyNone"
    and j: "getattr lightcurve ''mjdref'' = Inr (PyFloat 55000)"
    by (simp_all add: lightcurve_defs)
  from get_meta_dict_non_none[OF h] obtain d where
    d: "get_meta_dict lightcurve = Inr d" and
    l: "\<forall>k \<in> set [''gti'', ''main_array_attr'', ''mission'', ''mjdref''].
          \<forall>v. getattr lightcurve k = Inr v \<and> v \<noteq> PyNone \<longrightarrow> map_of d k = Some v"
    by auto
  have deq: "d = [(''gti'', PyArray (FloatArray [1, 2] [0, 2])),
          (''main_array_attr'', PyStr ''time''),
          (''mjdref'', PyFloat 55000)]"
    using d by (simp add: lightcurve_meta_dict)
  have "map_of d ''mjdref'' = Some (PyFloat 55000)" using l j by simp
  then show ?thesis using h m j d deq by simp
qed

section \<open>Importing an empty table\<close>



section \<open>From an object to a table and back\<close>









section \<open>The deprecated keyword\<close>

text \<open>
  Claim C8. With \<^verbatim>\<open>fmt\<close> unset, \<^verbatim>\<open>read\<close> and \<^verbatim>\<open>write\<close> called with \<^verbatim>\<open>format_\<close> return
  what they return when called with \<^verbatim>\<open>fmt\<close> set to that value, which issues no warning,
  and issue exactly one \<^verbatim>\<open>DeprecationWarning\<close>. With \<^verbatim>\<open>fmt\<close> set, \<^verbatim>\<open>format_\<close> is
  ignored. This holds whatever the table and pickle libraries do.
\<close>

theorem deprecated_format_keyword:
  "read lib cls fs filename None (Some f) =
     ([DeprecationWarning], snd (read lib cls fs filename (Some f) None)) \<and>
   fst (read lib cls fs filename (Some f) None) = [] \<and>
   read lib cls fs filename (Some f) format_kw = read lib cls fs filename (Some f) None \<and>
   write_file lib self fs filename None (Some f) =
     ([DeprecationWarning], snd (write_file lib self fs filename (Some f) None)) \<and>
   fst (write_file lib self fs filename (Some f) None) = [] \<and>
   write_file lib self fs filename (Some f) format_kw = write_file lib self fs filename (Some f) None"
  by (simp add: read_def write_file_def deprecated_format_def)

text \<open>
  Reading a text file and pickling the light curve through the deprecated keyword.
\<close>

theorem deprecated_format_keyword_witness:
  "read memory_library lightcurve_class [''lc.ecsv'' \<mapsto> TableFile (z_table 0 1)] ''lc.ecsv''
      None (Some ''ascii'') =
     ([DeprecationWarning],
      snd (read memory_library lightcurve_class [''lc.ecsv'' \<mapsto> TableFile (z_table 0 1)]
             ''lc.ecsv'' (Some ''ascii'') None)) \<and>
   fst (read memory_library lightcurve_class [''lc.ecsv'' \<mapsto> TableFile (z_table 0 1)]
             ''lc.ecsv'' (Some ''ascii'') None) = [] \<and>
   write_file memory_library lightcurve Map.empty ''lc.p'' None (Some ''pickle'') =
     ([DeprecationWarning], Inr [''lc.p'' \<mapsto> PickleFile lightcurve]) \<and>
   write_file memory_library lightcurve Map.empty ''lc.p'' (Some ''pickle'') None =
     ([], Inr [''lc.p'' \<mapsto> PickleFile lightcurve])"
proof -
  have w: "write_file memory_library lightcurve Map.empty ''lc.p'' (Some ''pickle'') None =
     ([], Inr [''lc.p'' \<mapsto> PickleFile lightcurve])"
    by (simp add: write_file_def deprecated_format_def lower_def memory_library_def)
  show ?thesis
    using deprecated_format_keyword[of memory_library lightcurve_class
        "[''lc.ecsv'' \<mapsto> TableFile (z_table 0 1)]" "''lc.ecsv''" "''ascii''" None lightcurve]
      deprecated_format_keyword[of memory_library lightcurve_class
        Map.empty "''lc.p''" "''pickle''" None lightcurve] w
    by simp
qed

section \<open>Complex columns in text formats\<close>

lemma z_split:
  "split_complex [''time'', ''z'']
     [(''time'', FloatArray [2] [t0, t1]),
      (''z'', ComplexArray [2] [Complex 1 2, Complex 3 (- 4)])] =
   Inr (columns (z_table t0 t1))"
  by (simp add: getitem_def first_iscomplex_def setitem_def remove_column_def z_table_def
        AList.delete_eq)

lemma z_merge:
  "merge_complex [''time'', ''z.real'', ''z.imag''] None (columns (z_table t0 t1)) =
   Inr [(''time'', FloatArray [2] [t0, t1]),
        (''z'', ComplexArray [2] [Complex 1 2, Complex 3 (- 4)])]"
  by (simp add: z_table_def endswith_def startswith_def merge_half_def getitem_def
        setitem_def remove_column_def AList.delete_eq complex_eq_iff)

lemma import_time_z:
  "from_astropy_table lightcurve_class
     \<lparr>columns = [(''time'', FloatArray [2] [t0, t1]), (''z'', ComplexArray [2] zs)],
      meta = md\<rparr> =
   Inr (import_meta
          (lightcurve_class @
            [(''time'', PyArray (FloatArray [2] [t0, t1])), (''z'', PyArray (ComplexArray [2] zs))])
          md)"
  by (simp add: from_astropy_table_def table_len_def import_main_def class_getattr_def
        lightcurve_class_def getitem_def setattr_def colnames_def)

lemma z_write_table:
  assumes "is_text_format fmt"
  shows "write_table memory_library (z_object t0 t1) fs filename fmt =
           Inr (fs(filename \<mapsto> TableFile (z_table t0 t1)))"
proof -
  have "split_complex
          (colnames \<lparr>columns =
            [(''time'', FloatArray [2] [t0, t1]),
             (''z'', ComplexArray [2] [Complex 1 2, Complex 3 (- 4)])],
          meta = [(''main_array_attr'', PyStr ''time'')]\<rparr>)
          [(''time'', FloatArray [2] [t0, t1]),
             (''z'', ComplexArray [2] [Complex 1 2, Complex 3 (- 4)])] =
        Inr (columns (z_table t0 t1))"
    by (simp add: colnames_def z_split del: split_complex.simps)
  then show ?thesis
    using assms
    by (simp add: write_table_def z_object_table memory_library_def z_table_def
          del: split_complex.simps)
qed

lemma z_read_table:
  assumes "is_text_format fmt" "fs filename = Some (TableFile (z_table t0 t1))"
  shows "read_table memory_library lightcurve_class fs filename fmt =
           Inr (Class (lightcurve_class @
              [(''time'', PyArray (FloatArray [2] [t0, t1])),
               (''z'', PyArray (ComplexArray [2] [Complex 1 2, Complex 3 (- 4)]))]))"
proof -
  have names: "colnames (z_table t0 t1) = [''time'', ''z.real'', ''z.imag'']"
    by (simp add: colnames_def z_table_def)
  have md: "meta (z_table t0 t1) = [(''main_array_attr'', PyStr ''time'')]"
    by (simp add: z_table_def)
  have rd: "table_read memory_library fs filename fmt = Inr (z_table t0 t1)"
    using assms(2) by (simp add: memory_library_def)
  have imp: "import_meta
          (lightcurve_class @
            [(''time'', PyArray (FloatArray [2] [t0, t1])),
             (''z'', PyArray (ComplexArray [2] [Complex 1 2, Complex 3 (- 4)]))])
          [(''main_array_attr'', PyStr ''time'')] =
        lightcurve_class @
            [(''time'', PyArray (FloatArray [2] [t0, t1])),
             (''z'', PyArray (ComplexArray [2] [Complex 1 2, Complex 3 (- 4)]))]"
    by (simp add: setattr_def lightcurve_class_def)
  have tab: "z_table t0 t1\<lparr>columns := [(''time'', FloatArray [2] [t0, t1]),
        (''z'', ComplexArray [2] [Complex 1 2, Complex 3 (- 4)])]\<rparr> =
      \<lparr>columns = [(''time'', FloatArray [2] [t0, t1]),
        (''z'', ComplexArray [2] [Complex 1 2, Complex 3 (- 4)])],
       meta = [(''main_array_attr'', PyStr ''time'')]\<rparr>"
    by (simp add: z_table_def)
  show ?thesis
    using assms(1)
    by (simp add: read_table_def rd names z_merge tab import_time_z imp
          del: merge_complex.simps import_meta.simps)
qed

lemma startswith_lower: "startswith s sub \<Longrightarrow> startswith (lower s) (lower sub)"
  by (simp add: startswith_def lower_def) (metis take_map)

lemma str_contains_lower: "str_contains sub s \<Longrightarrow> str_contains (lower sub) (lower s)"
proof (induction s)
  case Nil
  then show ?case by (simp add: lower_def)
next
  case (Cons c cs)
  then show ?case using startswith_lower[of "c # cs" sub] by (auto simp: lower_def)
qed

lemma ascii_not_pickle: "str_contains ''ascii'' f \<Longrightarrow> lower f \<noteq> ''pickle''"
proof
  assume "str_contains ''ascii'' f" "lower f = ''pickle''"
  then have "str_contains (lower ''ascii'') ''pickle''" using str_contains_lower by metis
  then show False by (simp add: lower_def startswith_def)
qed

lemma text_format_dispatch:
  assumes "fmt = None \<or> (\<exists>f. fmt = Some f \<and> (str_contains ''ascii'' f \<or> lower f = ''ascii''))"
  shows "\<exists>fmt'. is_text_format fmt' \<and>
           write_file lib self fs filename fmt None = ([], write_table lib self fs filename fmt') \<and>
           read lib cls fs' filename fmt None = ([], read_table lib cls fs' filename fmt')"
proof (cases fmt)
  case None
  then show ?thesis
    by (intro exI[of _ None]) (simp add: is_text_format_def write_file_def read_def deprecated_format_def)
next
  case (Some f)
  show ?thesis
  proof (cases "lower f = ''ascii''")
    case True
    then show ?thesis using Some
      by (intro exI[of _ "Some ''ascii.ecsv''"])
         (simp add: is_text_format_def write_file_def read_def deprecated_format_def startswith_def)
  next
    case False
    then have c: "str_contains ''ascii'' f" using assms Some by simp
    then have "lower f \<noteq> ''pickle''" by (rule ascii_not_pickle)
    then show ?thesis using Some False c
      by (intro exI[of _ "Some f"])
         (simp add: is_text_format_def write_file_def read_def deprecated_format_def)
  qed
qed

text \<open>
  Claim C3. Take the object with the main array \<^verbatim>\<open>time\<close> (any two real values) and
  \<^verbatim>\<open>z = [1+2j, 3-4j]\<close>, and a text format: no format, one whose name contains
  \<^verbatim>\<open>ascii\<close>, or \<^verbatim>\<open>ascii\<close> in any case. With lossless codecs, \<^verbatim>\<open>write\<close> stores the table
  with the columns \<^verbatim>\<open>time\<close>, \<^verbatim>\<open>z.real = [1, 3]\<close> and \<^verbatim>\<open>z.imag = [2, -4]\<close>, and \<^verbatim>\<open>read\<close>
  with the same format returns the class with \<^verbatim>\<open>z = [1+2j, 3-4j]\<close>, the value the
  object had.
\<close>

theorem complex_text_roundtrip:
  assumes "fmt = None \<or> (\<exists>f. fmt = Some f \<and> (str_contains ''ascii'' f \<or> lower f = ''ascii''))"
  shows "\<exists>fs' cls'.
     write_file memory_library (z_object t0 t1) fs filename fmt None = ([], Inr fs') \<and>
     fs' filename = Some (TableFile (z_table t0 t1)) \<and>
     read memory_library lightcurve_class fs' filename fmt None = ([], Inr (Class cls')) \<and>
     class_getattr cls' ''z'' = Inr (PyArray (ComplexArray [2] [Complex 1 2, Complex 3 (- 4)])) \<and>
     class_getattr cls' ''z'' = getattr (z_object t0 t1) ''z''"
proof -
  let ?fs = "fs(filename \<mapsto> TableFile (z_table t0 t1))"
  let ?cls = "lightcurve_class @
              [(''time'', PyArray (FloatArray [2] [t0, t1])),
               (''z'', PyArray (ComplexArray [2] [Complex 1 2, Complex 3 (- 4)]))]"
  from text_format_dispatch[OF assms, of memory_library "z_object t0 t1" fs filename
      lightcurve_class ?fs]
  obtain fmt' where
    t: "is_text_format fmt'" and
    w: "write_file memory_library (z_object t0 t1) fs filename fmt None =
          ([], write_table memory_library (z_object t0 t1) fs filename fmt')" and
    r: "read memory_library lightcurve_class ?fs filename fmt None =
          ([], read_table memory_library lightcurve_class ?fs filename fmt')"
    by auto
  have 1: "write_file memory_library (z_object t0 t1) fs filename fmt None = ([], Inr ?fs)"
    by (simp add: w z_write_table[OF t])
  have 2: "?fs filename = Some (TableFile (z_table t0 t1))" by simp
  have 3: "read memory_library lightcurve_class ?fs filename fmt None = ([], Inr (Class ?cls))"
    using z_read_table[of fmt' ?fs filename t0 t1, OF t 2] by (simp only: r)
  have 4: "class_getattr ?cls ''z'' = Inr (PyArray (ComplexArray [2] [Complex 1 2, Complex 3 (- 4)]))"
    by (simp add: class_getattr_def lightcurve_class_def)
  have 5: "getattr (z_object t0 t1) ''z'' = Inr (PyArray (ComplexArray [2] [Complex 1 2, Complex 3 (- 4)]))"
    by (simp add: z_object_defs)
  show ?thesis using 1 2 3 4 5 by (intro exI[of _ ?fs] exI[of _ ?cls]) simp
qed

text \<open>
  The round trip with \<^verbatim>\<open>fmt="ascii"\<close> and \<^verbatim>\<open>time = [0, 1]\<close>.
\<close>

theorem complex_text_roundtrip_witness:
  "lower ''ascii'' = ''ascii'' \<and>
   (\<exists>fs' cls'.
     write_file memory_library (z_object 0 1) Map.empty ''lc.ecsv'' (Some ''ascii'') None
       = ([], Inr fs') \<and>
     fs' ''lc.ecsv'' = Some (TableFile (z_table 0 1)) \<and>
     read memory_library lightcurve_class fs' ''lc.ecsv'' (Some ''ascii'') None
       = ([], Inr (Class cls')) \<and>
     class_getattr cls' ''z'' = Inr (PyArray (ComplexArray [2] [Complex 1 2, Complex 3 (- 4)])))"
proof -
  have l: "lower ''ascii'' = ''ascii''" by (simp add: lower_def)
  then have h: "Some ''ascii'' = None \<or>
      (\<exists>f. Some ''ascii'' = Some f \<and> (str_contains ''ascii'' f \<or> lower f = ''ascii''))"
    by simp
  from complex_text_roundtrip[OF h, of 0 1 Map.empty "''lc.ecsv''"] l
  show ?thesis by blast
qed

lemma imag_first_merge:
  "merge_complex [''time'', ''z.imag'', ''z.real''] None (columns imag_first_table) =
   Inr [(''time'', FloatArray [2] [0, 1]),
        (''z'', ComplexArray [2] [Complex 0 3, Complex 0 (- 1)])]"
  by (simp add: imag_first_table_def endswith_def startswith_def merge_half_def getitem_def
        setitem_def remove_column_def AList.delete_eq complex_eq_iff)

lemma real_first_merge:
  "merge_complex [''z.real'', ''z.imag'', ''time''] None (columns real_first_table) =
   Inl UnboundLocalError"
  by (simp add: real_first_table_def endswith_def startswith_def merge_half_def getitem_def)

lemma imag_first_read:
  assumes "fs filename = Some (TableFile imag_first_table)"
  shows "read_table memory_library lightcurve_class fs filename None =
           Inr (Class (lightcurve_class @
              [(''time'', PyArray (FloatArray [2] [0, 1])),
               (''z'', PyArray (ComplexArray [2] [Complex 0 3, Complex 0 (- 1)]))]))"
proof -
  have names: "colnames imag_first_table = [''time'', ''z.imag'', ''z.real'']"
    by (simp add: colnames_def imag_first_table_def)
  have rd: "table_read memory_library fs filename None = Inr imag_first_table"
    using assms by (simp add: memory_library_def)
  have tab: "imag_first_table\<lparr>columns := [(''time'', FloatArray [2] [0, 1]),
        (''z'', ComplexArray [2] [Complex 0 3, Complex 0 (- 1)])]\<rparr> =
      \<lparr>columns = [(''time'', FloatArray [2] [0, 1]),
        (''z'', ComplexArray [2] [Complex 0 3, Complex 0 (- 1)])],
       meta = []\<rparr>"
    by (simp add: imag_first_table_def)
  show ?thesis
    by (simp add: read_table_def rd names imag_first_merge tab import_time_z is_text_format_def
          del: merge_complex.simps)
qed

lemma real_first_read:
  assumes "fs filename = Some (TableFile real_first_table)"
  shows "read_table memory_library lightcurve_class fs filename None = Inl UnboundLocalError"
proof -
  have names: "colnames real_first_table = [''z.real'', ''z.imag'', ''time'']"
    by (simp add: colnames_def real_first_table_def)
  have rd: "table_read memory_library fs filename None = Inr real_first_table"
    using assms by (simp add: memory_library_def)
  show ?thesis
    by (simp add: read_table_def rd names real_first_merge is_text_format_def
          del: merge_complex.simps)
qed

lemma read_no_format: "read lib cls fs filename None None = ([], read_table lib cls fs filename None)"
  by (simp add: read_def deprecated_format_def)

text \<open>
  Claim C4 at two tables. When the column \<^verbatim>\<open>z.imag = [2, -4]\<close> comes right before
  \<^verbatim>\<open>z.real = [1, 3]\<close>, \<^verbatim>\<open>read\<close> multiplies the real half by \<^verbatim>\<open>1j\<close> as well, because
  \<^verbatim>\<open>is_imag\<close> still holds the value of the round before, and returns \<^verbatim>\<open>z = [3j, -1j]\<close>
  instead of \<^verbatim>\<open>[1+2j, 3-4j]\<close>. When \<^verbatim>\<open>z.real\<close> is the first column of the table,
  \<^verbatim>\<open>is_imag\<close> has never been assigned and \<^verbatim>\<open>read\<close> raises \<^verbatim>\<open>UnboundLocalError\<close>.
\<close>

theorem read_imag_before_real:
  "(fs filename = Some (TableFile imag_first_table) \<longrightarrow>
      read memory_library lightcurve_class fs filename None None =
        ([], Inr (Class (lightcurve_class @
              [(''time'', PyArray (FloatArray [2] [0, 1])),
               (''z'', PyArray (ComplexArray [2] [Complex 0 3, Complex 0 (- 1)]))])))) \<and>
   (fs filename = Some (TableFile real_first_table) \<longrightarrow>
      read memory_library lightcurve_class fs filename None None = ([], Inl UnboundLocalError))"
  by (simp add: read_no_format imag_first_read real_first_read)

text \<open>
  Both tables read from a file.
\<close>

theorem read_imag_before_real_witness:
  "read memory_library lightcurve_class [''lc.ecsv'' \<mapsto> TableFile imag_first_table]
      ''lc.ecsv'' None None =
        ([], Inr (Class (lightcurve_class @
              [(''time'', PyArray (FloatArray [2] [0, 1])),
               (''z'', PyArray (ComplexArray [2] [Complex 0 3, Complex 0 (- 1)]))]))) \<and>
   read memory_library lightcurve_class [''lc.ecsv'' \<mapsto> TableFile real_first_table]
      ''lc.ecsv'' None None = ([], Inl UnboundLocalError)"
  using read_imag_before_real[of "[''lc.ecsv'' \<mapsto> TableFile imag_first_table]" "''lc.ecsv''"]
    read_imag_before_real[of "[''lc.ecsv'' \<mapsto> TableFile real_first_table]" "''lc.ecsv''"]
  by simp

end
